theory Spec2Isabelle
  imports Complex_Main
begin

section \<open>Resilient fetcher: \<open>retry_request\<close> of scraper.py\<close>

text \<open>
  The exceptions the wrapped network functions can raise. \<open>ConnectionError\<close>,
  \<open>Timeout\<close> and \<open>HTTPError\<close> (with the response's status code) are classes of
  \<open>requests.exceptions\<close> derived from \<open>RequestException\<close>; \<open>OtherException\<close>
  stands for any exception outside that hierarchy, named by its class.
\<close>

datatype py_exception =
    ConnectionError
  | Timeout
  | HTTPError int
  | OtherException string

fun is_RequestException :: "py_exception \<Rightarrow> bool" where
  "is_RequestException ConnectionError = True"
| "is_RequestException Timeout = True"
| "is_RequestException (HTTPError status) = True"
| "is_RequestException (OtherException cls) = False"

text \<open>
  The retryable classification in the words of the specification: a transport-level
  error, or an HTTP error status in the 5xx range or 429. It is not part of the code; the
  code's test is \<open>is_RequestException\<close>.
\<close>

fun spec_retryable :: "py_exception \<Rightarrow> bool" where
  "spec_retryable ConnectionError = True"
| "spec_retryable Timeout = True"
| "spec_retryable (HTTPError status) = ((500 \<le> status \<and> status < 600) \<or> status = 429)"
| "spec_retryable (OtherException cls) = False"

text \<open>
  What one run of the wrapper has done so far: the state of the outside world the wrapped
  function acts on, the number of times the wrapped function was invoked, and the arguments
  of \<open>time.sleep\<close> in the order of the calls. The \<open>print\<close> before each sleep is not
  modelled. Python numbers are modelled as exact reals.
\<close>

record 'w run =
  world :: 'w
  calls :: nat
  sleeps :: "real list"

definition MAX_RETRIES :: int where
  "MAX_RETRIES = 3"

definition INITIAL_BACKOFF :: real where
  "INITIAL_BACKOFF = 2"

text \<open>\<open>sleep_time = initial_backoff * (2 ** attempt) + (0.1 * attempt)\<close>\<close>

definition sleep_time :: "real \<Rightarrow> nat \<Rightarrow> real" where
  "sleep_time initial_backoff attempt =
     initial_backoff * (2 ^ attempt) + (1 / 10) * real attempt"

text \<open>
  The body of \<open>wrapper\<close>: the loop \<open>for attempt in range(max_retries)\<close> over the
  attempts still to come. A wrapped function is a function of the world that returns a
  value or raises, and leaves a new world. A result \<open>Inr None\<close> is the loop running out
  and the wrapper returning Python's \<open>None\<close>.
\<close>

fun retry_loop ::
  "int \<Rightarrow> real \<Rightarrow> ('w \<Rightarrow> (py_exception + 'a) \<times> 'w) \<Rightarrow> nat list \<Rightarrow> 'w run
     \<Rightarrow> (py_exception + 'a option) \<times> 'w run" where
  "retry_loop max_retries initial_backoff func [] s = (Inr None, s)"
| "retry_loop max_retries initial_backoff func (attempt # rest) s =
     (case func (world s) of
        (Inr v, w) \<Rightarrow> (Inr (Some v), s\<lparr>world := w, calls := Suc (calls s)\<rparr>)
      | (Inl e, w) \<Rightarrow>
          (let s1 = s\<lparr>world := w, calls := Suc (calls s)\<rparr> in
           if is_RequestException e then
             if int attempt < max_retries - 1 then
               retry_loop max_retries initial_backoff func rest
                 (s1\<lparr>sleeps := sleeps s1 @ [sleep_time initial_backoff attempt]\<rparr>)
             else (Inl e, s1)
           else (Inl e, s1)))"

definition wrapper ::
  "int \<Rightarrow> real \<Rightarrow> ('w \<Rightarrow> (py_exception + 'a) \<times> 'w) \<Rightarrow> 'w run
     \<Rightarrow> (py_exception + 'a option) \<times> 'w run" where
  "wrapper max_retries initial_backoff func s =
     retry_loop max_retries initial_backoff func [0..<nat max_retries] s"


text \<open>
  \<open>Response.raise_for_status\<close> of the requests library: an \<open>HTTPError\<close> for a client
  (4xx) or server (5xx) status, nothing otherwise.
\<close>

record response =
  status_code :: int
  body :: string

definition raise_for_status :: "response \<Rightarrow> py_exception option" where
  "raise_for_status r =
     (if 400 \<le> status_code r \<and> status_code r < 600 then Some (HTTPError (status_code r))
      else None)"

text \<open>
  The undecorated body of \<open>fetch_product_details_from_api\<close>: \<open>get\<close> is the request
  \<open>requests.get(url, headers=HEADERS, timeout=15)\<close> for the handle, \<open>json\<close> is
  \<open>response.json()\<close>; both belong to the library and are parameters here.
\<close>

definition fetch_product_details_body ::
  "('w \<Rightarrow> (py_exception + response) \<times> 'w) \<Rightarrow> (response \<Rightarrow> py_exception + 'j)
     \<Rightarrow> 'w \<Rightarrow> (py_exception + 'j) \<times> 'w" where
  "fetch_product_details_body get json w =
     (case get w of
        (Inl e, w') \<Rightarrow> (Inl e, w')
      | (Inr r, w') \<Rightarrow>
          (case raise_for_status r of
             Some e \<Rightarrow> (Inl e, w')
           | None \<Rightarrow> (json r, w')))"

text \<open>\<open>@retry_request()\<close> with the default arguments.\<close>

definition fetch_product_details_from_api ::
  "('w \<Rightarrow> (py_exception + response) \<times> 'w) \<Rightarrow> (response \<Rightarrow> py_exception + 'j)
     \<Rightarrow> 'w run \<Rightarrow> (py_exception + 'j option) \<times> 'w run" where
  "fetch_product_details_from_api get json =
     wrapper MAX_RETRIES INITIAL_BACKOFF (fetch_product_details_body get json)"

text \<open>
  Three concrete collaborators used to run the wrapper: a server that answers every
  request with status 404, a decoder that accepts every body, and an operation that fails
  on its \<open>w\<close>-th invocation with the server error \<open>500 + min w 99\<close> (the world
  counts the invocations, so successive attempts raise different exceptions).
\<close>

definition always_not_found :: "unit \<Rightarrow> (py_exception + response) \<times> unit" where
  "always_not_found w = (Inr \<lparr>status_code = 404, body = []\<rparr>, w)"

definition json_body :: "response \<Rightarrow> py_exception + string" where
  "json_body r = Inr (body r)"

definition failing_server :: "nat \<Rightarrow> (py_exception + unit) \<times> nat" where
  "failing_server w = (Inl (HTTPError (500 + int (min w 99))), Suc w)"

section \<open>Query vector builder: \<open>build_query_vector\<close> of main.py\<close>

text \<open>
  The only exception \<open>build_query_vector\<close> raises itself is a \<open>RuntimeError\<close>, with
  its message.
\<close>

datatype error = RuntimeError string

text \<open>
  Python's slice \<open>xs[:stop]\<close>: a negative \<open>stop\<close> counts from the end, and a bound
  beyond either end is clipped.
\<close>

definition slice_to :: "'a list \<Rightarrow> int \<Rightarrow> 'a list" where
  "slice_to xs stop =
     (if stop < 0 then take (nat (int (length xs) + stop)) xs else take (nat stop) xs)"

text \<open>\<open>np.tile(xs, reps)\<close> on a one-dimensional array and an integer \<open>reps\<close>.\<close>

definition tile :: "'a list \<Rightarrow> int \<Rightarrow> 'a list" where
  "tile xs reps = concat (replicate (nat reps) xs)"

text \<open>
  \<open>np.linalg.norm\<close> of a one-dimensional array, as the exact Euclidean norm. The source
  computes it in float32. The two agree up to rounding as long as no square underflows and
  the sum of the squares does not overflow, which holds when the array has at most \<open>2^12\<close>
  entries, each zero or of magnitude between \<open>2^-50\<close> and \<open>2^50\<close>; they agree exactly
  on an array of zeros. Outside that range the computed norm can be 0, infinite or NaN
  where the exact one is not, so a property of the arithmetic of \<open>linalg_norm\<close> is
  stated for arrays in that range only.
\<close>

definition linalg_norm :: "real list \<Rightarrow> real" where
  "linalg_norm xs = sqrt (\<Sum>x\<leftarrow>xs. x * x)"

text \<open>
  Lines 51 to 55: the value of \<open>fused\<close> before normalisation, truncated or tiled to
  the stored dimension.
\<close>

definition fuse :: "real list \<Rightarrow> int \<Rightarrow> real list" where
  "fuse text_vec collection_dim =
     (let text_dim = int (length text_vec) in
      if collection_dim \<le> text_dim then slice_to text_vec collection_dim
      else
        (let repeats = \<lceil>real_of_int collection_dim / real_of_int text_dim\<rceil>
         in slice_to (tile text_vec repeats) collection_dim))"

text \<open>
  \<open>model\<close> is the embedding model's \<open>embed\<close>, a parameter. The float32 array is
  modelled as a list of reals: rounding, overflow, underflow and NaN are not modelled.
\<close>

definition build_query_vector ::
  "(string \<Rightarrow> real list) \<Rightarrow> int \<Rightarrow> string \<Rightarrow> error + real list" where
  "build_query_vector model collection_dim query_text =
     (let text_vec = model query_text;
          text_dim = int (length text_vec)
      in if text_dim = 0 then Inl (RuntimeError ''Embedding model returned an empty vector.'')
         else
           (let fused = fuse text_vec collection_dim;
                norm = linalg_norm fused
            in Inr (if norm \<noteq> 0 then map (\<lambda>x. x / norm) fused else fused)))"

section \<open>Properties of the resilient fetcher\<close>



text \<open>
  Any wrapped function: the loop calls it at least once, and the sleeps it adds are the
  delays of the attempts \<open>i, i + 1, \<dots>\<close>, one after each call but the last.
\<close>

lemma retry_loop_sleeps:
  "Suc (calls s) \<le> calls (snd (retry_loop (int (i + Suc k)) ib func [i..<i + Suc k] s)) \<and>
   sleeps (snd (retry_loop (int (i + Suc k)) ib func [i..<i + Suc k] s)) =
      sleeps s @ map (sleep_time ib)
        [i..<i + (calls (snd (retry_loop (int (i + Suc k)) ib func [i..<i + Suc k] s))
                   - Suc (calls s))]"
proof (induction k arbitrary: i s)
  case 0
  show ?case
    by (cases "func (world s)") (auto simp add: Let_def split: sum.splits)
next
  case (Suc k)
  have split: "[i..<i + Suc (Suc k)] = i # [Suc i..<Suc i + Suc k]"
    by (simp add: upt_conv_Cons)
  have mr: "int (i + Suc (Suc k)) = int (Suc i + Suc k)" by simp
  obtain r w where fw: "func (world s) = (r, w)" by (cases "func (world s)")
  show ?case
  proof (cases "\<exists>e. r = Inl e \<and> is_RequestException e")
    case False
    then show ?thesis
      unfolding split by (cases r) (auto simp add: fw Let_def)
  next
    case True
    then obtain e where Inl: "r = Inl e" and re: "is_RequestException e" by blast
    let ?s2 = "s\<lparr>world := w, calls := Suc (calls s),
                 sleeps := sleeps s @ [sleep_time ib i]\<rparr>"
    let ?s' = "snd (retry_loop (int (Suc i + Suc k)) ib func [Suc i..<Suc i + Suc k] ?s2)"
    have step: "retry_loop (int (i + Suc (Suc k))) ib func [i..<i + Suc (Suc k)] s
                = retry_loop (int (Suc i + Suc k)) ib func [Suc i..<Suc i + Suc k] ?s2"
      unfolding split mr by (simp add: fw Inl re Let_def)
    have IH: "Suc (calls ?s2) \<le> calls ?s' \<and>
              sleeps ?s' = sleeps ?s2 @ map (sleep_time ib)
                [Suc i..<Suc i + (calls ?s' - Suc (calls ?s2))]"
      by (rule Suc.IH)
    then have c: "Suc (Suc (calls s)) \<le> calls ?s'" by simp
    then obtain m where m: "calls ?s' = Suc (Suc (calls s)) + m"
      using le_Suc_ex by blast
    have "sleeps ?s' = sleeps ?s2 @ map (sleep_time ib) [Suc i..<Suc i + m]"
      using IH m by simp
    also have "\<dots> = sleeps s @ map (sleep_time ib) (i # [Suc i..<Suc i + m])"
      by simp
    also have "i # [Suc i..<Suc i + m] = [i..<i + Suc m]"
      by (simp add: upt_conv_Cons)
    also have "i + Suc m = i + (calls ?s' - Suc (calls s))"
      using m by simp
    finally show ?thesis
      unfolding step using c by simp
  qed
qed


text \<open>
  An exception that is not a \<open>RequestException\<close> is not caught: it leaves the wrapper
  after the first call, with no sleep.
\<close>

lemma wrapper_other_exception_propagates:
  assumes "1 \<le> max_retries" and "func (world s) = (Inl e, w)" and "\<not> is_RequestException e"
  shows "wrapper max_retries ib func s = (Inl e, s\<lparr>world := w, calls := Suc (calls s)\<rparr>)"
proof -
  from assms(1) have "[0..<nat max_retries] = 0 # [1..<nat max_retries]"
    by (simp add: upt_conv_Cons)
  then show ?thesis
    using assms(2,3) by (simp add: wrapper_def)
qed

text \<open>
  C1, at a failing input: the API answers every request with status 404, which the
  specification classifies as not retryable. The claim is one attempt and no sleep; the
  decorated \<open>fetch_product_details_from_api\<close> makes three requests and sleeps 2 and 4.1
  seconds before the \<open>HTTPError\<close> leaves it, since \<open>except RequestException\<close> catches
  every HTTP error status.
\<close>

theorem not_found_is_retried:
  "\<not> spec_retryable (HTTPError 404) \<and>
   fetch_product_details_from_api always_not_found json_body
       \<lparr>world = (), calls = 0, sleeps = []\<rparr>
     = (Inl (HTTPError 404), \<lparr>world = (), calls = 3, sleeps = [2, 41 / 10]\<rparr>)"
  by (simp add: fetch_product_details_from_api_def wrapper_def MAX_RETRIES_def
      INITIAL_BACKOFF_def fetch_product_details_body_def always_not_found_def
      raise_for_status_def sleep_time_def upt_conv_Cons)



text \<open>
  C3: the delays the wrapper sleeps are, in order, \<open>initial_backoff * 2^i + 0.1 * i\<close> for
  the zero-based attempts \<open>i = 0, 1, \<dots>\<close>, one after each call but the last; with
  \<open>initial_backoff = 2\<close> and four allowed attempts that all fail they are 2, 4.1 and 8.2.
\<close>

theorem backoff_delay_formula:
  "sleeps (snd (wrapper max_retries ib func s)) =
     sleeps s @ map (\<lambda>i. ib * 2 ^ i + 0.1 * real i)
       [0..<calls (snd (wrapper max_retries ib func s)) - Suc (calls s)] \<and>
   sleeps (snd (wrapper 4 2 failing_server \<lparr>world = 0, calls = 0, sleeps = []\<rparr>))
     = [2.0, 4.1, 8.2]"
proof
  let ?s' = "snd (wrapper max_retries ib func s)"
  have st: "sleep_time ib = (\<lambda>i. ib * 2 ^ i + 0.1 * real i)"
    by (rule ext) (simp add: sleep_time_def)
  show "sleeps ?s' = sleeps s @ map (\<lambda>i. ib * 2 ^ i + 0.1 * real i)
                       [0..<calls ?s' - Suc (calls s)]"
  proof (cases "1 \<le> max_retries")
    case False
    then show ?thesis by (simp add: wrapper_def)
  next
    case True
    define k where "k = nat max_retries - 1"
    have k: "nat max_retries = 0 + Suc k" and n: "max_retries = int (0 + Suc k)"
      using True by (simp_all add: k_def)
    have w: "wrapper max_retries ib func s
             = retry_loop (int (0 + Suc k)) ib func [0..<0 + Suc k] s"
      unfolding wrapper_def k unfolding n by simp
    show ?thesis
      unfolding w using retry_loop_sleeps [of s 0 k ib func] by (simp add: st)
  qed
  show "sleeps (snd (wrapper 4 2 failing_server \<lparr>world = 0, calls = 0, sleeps = []\<rparr>))
          = [2.0, 4.1, 8.2]"
    by (simp add: wrapper_def failing_server_def sleep_time_def upt_conv_Cons)
qed


text \<open>
  C10: constructed with \<open>max_retries = 0\<close>, the wrapper returns \<open>None\<close> without
  invoking the wrapped function even once, without sleeping and without raising.
\<close>

theorem wrapper_zero_retries_returns_None:
  "wrapper 0 initial_backoff func s = (Inr None, s)"
  by (simp add: wrapper_def)

section \<open>Properties of the query vector builder\<close>

lemma length_tile: "length (tile xs reps) = nat reps * length xs"
  by (simp add: tile_def length_concat sum_list_replicate)

lemma length_fuse:
  assumes "xs \<noteq> []" and "0 \<le> cd"
  shows "int (length (fuse xs cd)) = cd"
proof (cases "cd \<le> int (length xs)")
  case True
  then show ?thesis using assms by (simp add: fuse_def slice_to_def)
next
  case False
  let ?r = "\<lceil>real_of_int cd / real_of_int (int (length xs))\<rceil>"
  have pos: "0 < real_of_int (int (length xs))" using assms by simp
  have "real_of_int cd / real_of_int (int (length xs)) \<le> real_of_int ?r"
    by (rule le_of_int_ceiling)
  then have "real_of_int cd \<le> real_of_int ?r * real_of_int (int (length xs))"
    using pos pos_divide_le_eq by blast
  then have le: "cd \<le> ?r * int (length xs)"
    by (metis of_int_le_iff of_int_mult)
  have "0 \<le> real_of_int cd / real_of_int (int (length xs))"
    using assms(2) pos by (intro divide_nonneg_pos) simp_all
  then have "\<lceil>0::real\<rceil> \<le> ?r" by (rule ceiling_mono)
  then have "0 \<le> ?r" by simp
  then have "int (nat ?r * length xs) = ?r * int (length xs)" by simp
  with le have "nat cd \<le> nat ?r * length xs" using assms(2) by linarith
  then show ?thesis
    using False assms by (simp add: fuse_def slice_to_def length_tile Let_def)
qed

lemma sum_list_sq_nonneg: "0 \<le> (\<Sum>x\<leftarrow>xs. x * (x::real))"
  by (rule sum_list_nonneg) auto

lemma sum_list_sq_zero_iff: "(\<Sum>x\<leftarrow>xs. x * x) = 0 \<longleftrightarrow> (\<forall>x\<in>set xs. x = (0::real))"
  by (induction xs) (simp_all add: add_nonneg_eq_0_iff sum_list_sq_nonneg)

lemma linalg_norm_zero_iff: "linalg_norm xs = 0 \<longleftrightarrow> (\<forall>x\<in>set xs. x = 0)"
  by (simp add: linalg_norm_def sum_list_sq_zero_iff)

lemma linalg_norm_nonneg: "0 \<le> linalg_norm xs"
  by (simp add: linalg_norm_def sum_list_sq_nonneg)

lemma sum_list_sq_scale: "(\<Sum>x\<leftarrow>map (\<lambda>x. x / c) xs. x * x) = (\<Sum>x\<leftarrow>xs. x * x) / (c * c :: real)"
  by (induction xs) (simp_all add: add_divide_distrib)

lemma linalg_norm_normalised:
  assumes "linalg_norm xs \<noteq> 0"
  shows "linalg_norm (map (\<lambda>x. x / linalg_norm xs) xs) = 1"
proof -
  let ?q = "\<Sum>x\<leftarrow>xs. x * x"
  have q: "0 \<le> ?q" by (rule sum_list_sq_nonneg)
  have n: "linalg_norm xs * linalg_norm xs = ?q"
    using q by (simp add: linalg_norm_def)
  have "?q \<noteq> 0" using assms by (auto simp add: linalg_norm_def)
  then show ?thesis
    unfolding linalg_norm_def [of "map _ _"] sum_list_sq_scale n by simp
qed


lemma set_take_subset_fuse:
  assumes "xs \<noteq> []" and "0 \<le> cd"
  shows "set (take (nat cd) xs) \<subseteq> set (fuse xs cd)"
proof (cases "cd \<le> int (length xs)")
  case True
  then show ?thesis using assms by (simp add: fuse_def slice_to_def)
next
  case False
  let ?r = "\<lceil>real_of_int cd / real_of_int (int (length xs))\<rceil>"
  have "1 \<le> real_of_int cd / real_of_int (int (length xs))"
    using False assms by (simp add: pos_le_divide_eq)
  then have "\<lceil>1::real\<rceil> \<le> ?r" by (rule ceiling_mono)
  then have "1 \<le> ?r" by simp
  then obtain m where m: "nat ?r = Suc m" by (cases "nat ?r") auto
  have "tile xs ?r = xs @ concat (replicate m xs)"
    unfolding tile_def m by simp
  moreover have "length xs \<le> nat cd" using False by simp
  ultimately have "fuse xs cd = xs @ take (nat cd - length xs) (concat (replicate m xs))"
    using False assms(2) by (simp add: fuse_def slice_to_def Let_def)
  then show ?thesis
    by (auto dest: in_set_takeD)
qed

text \<open>
  C4: for \<open>text_dim \<ge> 1\<close> and \<open>collection_dim \<ge> 1\<close> the builder returns a vector, and
  its length is \<open>collection_dim\<close>.
\<close>

theorem build_query_vector_length:
  assumes "1 \<le> length (model query_text)" and "1 \<le> collection_dim"
  shows "\<exists>v. build_query_vector model collection_dim query_text = Inr v \<and>
             int (length v) = collection_dim"
proof -
  have ne: "model query_text \<noteq> []" using assms(1) by auto
  have "int (length (fuse (model query_text) collection_dim)) = collection_dim"
    using ne assms(2) by (intro length_fuse) simp_all
  then show ?thesis
    using ne by (simp add: build_query_vector_def Let_def)
qed

theorem build_query_vector_length_witness:
  "1 \<le> length ((\<lambda>q. [1, 2, 3 :: real]) ''shirt'') \<and> (1::int) \<le> 7 \<and>
   (\<exists>v. build_query_vector (\<lambda>q. [1, 2, 3]) 7 ''shirt'' = Inr v \<and> int (length v) = 7)"
proof -
  have h1: "1 \<le> length ((\<lambda>q. [1, 2, 3 :: real]) ''shirt'')" by simp
  have h2: "(1::int) \<le> 7" by simp
  show ?thesis
    using h1 h2 build_query_vector_length [of "\<lambda>q. [1, 2, 3]" "''shirt''" 7, OF h1 h2]
    by blast
qed

text \<open>
  C5 as stated fails: the source \<open>[0, 1]\<close> is nonzero, but with \<open>collection_dim = 1\<close>
  it is truncated to \<open>[0]\<close>, whose norm is zero, so \<open>[0]\<close> is returned as it is.
\<close>

theorem nonzero_source_zero_query:
  "build_query_vector (\<lambda>q. [0, 1]) 1 ''shirt'' = Inr [0] \<and> linalg_norm [0] \<noteq> 1"
  by (simp add: build_query_vector_def fuse_def slice_to_def linalg_norm_def)

lemma set_fuse_subset_take:
  assumes "xs \<noteq> []" and "0 \<le> cd"
  shows "set (fuse xs cd) \<subseteq> set (take (nat cd) xs)"
proof (cases "cd \<le> int (length xs)")
  case True
  then show ?thesis using assms by (simp add: fuse_def slice_to_def)
next
  case False
  then have "take (nat cd) xs = xs" by simp
  moreover have "set (fuse xs cd) \<subseteq> set xs"
    using False assms(2)
    by (auto simp add: fuse_def slice_to_def tile_def Let_def dest!: in_set_takeD)
  ultimately show ?thesis by simp
qed

text \<open>
  C5, amended. For \<open>text_dim \<ge> 1\<close> and \<open>collection_dim \<ge> 1\<close>: when one of the first
  \<open>collection_dim\<close> entries of the source is nonzero, \<open>collection_dim\<close> is at most
  \<open>2^12\<close> and each of those entries is zero or of magnitude between \<open>2^-50\<close> and
  \<open>2^50\<close> (the range in which the float32 computation only rounds), the returned vector
  has Euclidean norm 1; when the first \<open>collection_dim\<close> entries are all zero, the zero
  vector of length \<open>collection_dim\<close> is returned, not normalised.
\<close>

theorem build_query_vector_unit_norm:
  assumes "1 \<le> length (model query_text)" and "1 \<le> collection_dim"
  shows "((\<exists>x \<in> set (take (nat collection_dim) (model query_text)). x \<noteq> 0) \<and>
          collection_dim \<le> 2 ^ 12 \<and>
          (\<forall>x \<in> set (take (nat collection_dim) (model query_text)).
             x = 0 \<or> (1 / 2 ^ 50 \<le> \<bar>x\<bar> \<and> \<bar>x\<bar> \<le> 2 ^ 50))
          \<longrightarrow> (\<exists>v. build_query_vector model collection_dim query_text = Inr v \<and>
                    linalg_norm v = 1)) \<and>
         ((\<forall>x \<in> set (take (nat collection_dim) (model query_text)). x = 0)
          \<longrightarrow> build_query_vector model collection_dim query_text
                = Inr (replicate (nat collection_dim) 0))"
proof (intro conjI impI)
  let ?F = "fuse (model query_text) collection_dim"
  have ne: "model query_text \<noteq> []" using assms(1) by auto
  have nn: "0 \<le> collection_dim" using assms(2) by simp
  {
    assume "(\<exists>x \<in> set (take (nat collection_dim) (model query_text)). x \<noteq> 0) \<and>
          collection_dim \<le> 2 ^ 12 \<and>
          (\<forall>x \<in> set (take (nat collection_dim) (model query_text)).
             x = 0 \<or> (1 / 2 ^ 50 \<le> \<bar>x\<bar> \<and> \<bar>x\<bar> \<le> 2 ^ 50))"
    then have ex: "\<exists>x \<in> set (take (nat collection_dim) (model query_text)). x \<noteq> 0"
      by blast
    have "set (take (nat collection_dim) (model query_text)) \<subseteq> set ?F"
      using ne nn by (rule set_take_subset_fuse)
    with ex have "\<exists>x \<in> set ?F. x \<noteq> 0" by blast
    then have nz: "linalg_norm ?F \<noteq> 0" by (simp add: linalg_norm_zero_iff)
    then have "linalg_norm (map (\<lambda>x. x / linalg_norm ?F) ?F) = 1"
      by (rule linalg_norm_normalised)
    then show "\<exists>v. build_query_vector model collection_dim query_text = Inr v \<and>
                   linalg_norm v = 1"
      using ne nz by (simp add: build_query_vector_def Let_def)
  }
  {
    assume z: "\<forall>x \<in> set (take (nat collection_dim) (model query_text)). x = 0"
    have "set ?F \<subseteq> set (take (nat collection_dim) (model query_text))"
      using ne nn by (rule set_fuse_subset_take)
    with z have all0: "\<forall>x \<in> set ?F. x = 0" by blast
    then have n0: "linalg_norm ?F = 0" by (simp add: linalg_norm_zero_iff)
    have "int (length ?F) = collection_dim" using ne nn by (rule length_fuse)
    then have len: "length ?F = nat collection_dim" by simp
    have "replicate (length ?F) 0 = ?F"
      using all0 by (intro replicate_length_same) simp
    then have "?F = replicate (nat collection_dim) 0" using len by simp
    then show "build_query_vector model collection_dim query_text
                 = Inr (replicate (nat collection_dim) 0)"
      using ne n0 by (simp add: build_query_vector_def Let_def)
  }
qed

lemma linalg_norm_3_4: "linalg_norm [3, 4] = 5"
proof -
  have "sqrt 25 = 5" by (rule real_sqrt_unique) simp_all
  then show ?thesis by (simp add: linalg_norm_def)
qed


theorem build_query_vector_unit_norm_witness:
  "1 \<le> length ((\<lambda>q. [3, 4, 12 :: real]) ''shirt'') \<and> (1::int) \<le> 2 \<and>
   take (nat 2) ((\<lambda>q. [3, 4, 12 :: real]) ''shirt'') = [3, 4] \<and>
   (2::int) \<le> 2 ^ 12 \<and>
   1 / 2 ^ 50 \<le> \<bar>3 :: real\<bar> \<and> \<bar>3 :: real\<bar> \<le> 2 ^ 50 \<and>
   1 / 2 ^ 50 \<le> \<bar>4 :: real\<bar> \<and> \<bar>4 :: real\<bar> \<le> 2 ^ 50 \<and>
   build_query_vector (\<lambda>q. [3, 4, 12]) 2 ''shirt'' = Inr [3 / 5, 4 / 5] \<and>
   linalg_norm [3 / 5, 4 / 5] = 1 \<and>
   1 \<le> length ((\<lambda>q. [0, 0, 5 :: real]) ''shirt'') \<and>
   take (nat 2) ((\<lambda>q. [0, 0, 5 :: real]) ''shirt'') = [0, 0] \<and>
   build_query_vector (\<lambda>q. [0, 0, 5]) 2 ''shirt'' = Inr [0, 0]"
proof -
  have h1: "1 \<le> length ((\<lambda>q. [3, 4, 12 :: real]) ''shirt'')" by simp
  have h2: "(1::int) \<le> 2" by simp
  have h3: "\<exists>x \<in> set (take (nat 2) ((\<lambda>q. [3, 4, 12 :: real]) ''shirt'')). x \<noteq> 0"
    by (simp add: numeral_2_eq_2)
  have h4: "(2::int) \<le> 2 ^ 12" by simp
  have h5: "\<forall>x \<in> set (take (nat 2) ((\<lambda>q. [3, 4, 12 :: real]) ''shirt'')).
              x = 0 \<or> (1 / 2 ^ 50 \<le> \<bar>x\<bar> \<and> \<bar>x\<bar> \<le> 2 ^ 50)"
    by (simp add: numeral_2_eq_2)
  have b: "build_query_vector (\<lambda>q. [3, 4, 12]) 2 ''shirt'' = Inr [3 / 5, 4 / 5]"
    by (simp add: build_query_vector_def fuse_def slice_to_def numeral_2_eq_2
          linalg_norm_3_4)
  from build_query_vector_unit_norm [of "\<lambda>q. [3, 4, 12]" "''shirt''" 2, OF h1 h2]
       h3 h4 h5
  have "\<exists>v. build_query_vector (\<lambda>q. [3, 4, 12]) 2 ''shirt'' = Inr v \<and> linalg_norm v = 1"
    by blast
  then have n: "linalg_norm [3 / 5, 4 / 5] = 1"
    unfolding b by simp
  have g1: "1 \<le> length ((\<lambda>q. [0, 0, 5 :: real]) ''shirt'')" by simp
  have g3: "\<forall>x \<in> set (take (nat 2) ((\<lambda>q. [0, 0, 5 :: real]) ''shirt'')). x = 0"
    by (simp add: numeral_2_eq_2)
  from build_query_vector_unit_norm [of "\<lambda>q. [0, 0, 5]" "''shirt''" 2, OF g1 h2] g3
  have "build_query_vector (\<lambda>q. [0, 0, 5]) 2 ''shirt'' = Inr (replicate (nat 2) 0)"
    by blast
  then have z: "build_query_vector (\<lambda>q. [0, 0, 5]) 2 ''shirt'' = Inr [0, 0]"
    by (simp add: numeral_2_eq_2)
  have t1: "take (nat 2) ((\<lambda>q. [3, 4, 12 :: real]) ''shirt'') = [3, 4]"
    and t2: "take (nat 2) ((\<lambda>q. [0, 0, 5 :: real]) ''shirt'') = [0, 0]"
    by (simp_all add: numeral_2_eq_2)
  have r3: "1 / 2 ^ 50 \<le> \<bar>3 :: real\<bar> \<and> \<bar>3 :: real\<bar> \<le> 2 ^ 50"
    and r4: "1 / 2 ^ 50 \<le> \<bar>4 :: real\<bar> \<and> \<bar>4 :: real\<bar> \<le> 2 ^ 50"
    by simp_all
  show ?thesis
    using h1 h2 h4 t1 t2 r3 r4 b n g1 z by blast
qed

text \<open>
  C6 as stated fails: with \<open>collection_dim = 0\<close> and a nonempty source the builder
  returns the empty vector; nothing is raised.
\<close>

theorem zero_dimension_returns_empty:
  "build_query_vector (\<lambda>q. [1]) 0 ''shirt'' = Inr []"
  by (simp add: build_query_vector_def fuse_def slice_to_def linalg_norm_def)

text \<open>
  C6, amended: with \<open>collection_dim = 0\<close> the builder returns the empty vector for every
  nonempty source embedding, and raises only the \<open>RuntimeError\<close> of the empty source.
\<close>

theorem build_query_vector_zero_dimension:
  "build_query_vector model 0 query_text =
     (if model query_text = []
      then Inl (RuntimeError ''Embedding model returned an empty vector.'')
      else Inr [])"
  by (simp add: build_query_vector_def fuse_def slice_to_def linalg_norm_def Let_def)

text \<open>
  C7: an empty source embedding makes the builder raise its \<open>RuntimeError\<close> (the
  specification's EmptyEmbeddingError), whatever the target dimension; the check is the
  first thing done with the embedding.
\<close>

theorem build_query_vector_empty_embedding:
  assumes "length (model query_text) = 0"
  shows "build_query_vector model collection_dim query_text
           = Inl (RuntimeError ''Embedding model returned an empty vector.'')"
  using assms by (simp add: build_query_vector_def)

theorem build_query_vector_empty_embedding_witness:
  "length ((\<lambda>q. [] :: real list) ''shirt'') = 0 \<and>
   build_query_vector (\<lambda>q. []) 1536 ''shirt''
     = Inl (RuntimeError ''Embedding model returned an empty vector.'')"
proof -
  have h: "length ((\<lambda>q. [] :: real list) ''shirt'') = 0" by simp
  show ?thesis
    using h build_query_vector_empty_embedding [of "\<lambda>q. []" "''shirt''" 1536, OF h]
    by blast
qed



text \<open>
  C9: the worked examples. Source \<open>[1, 2, 3]\<close> and \<open>collection_dim = 7\<close> give
  \<open>[1, 2, 3, 1, 2, 3, 1]\<close> before normalisation; source \<open>[1, 2, 3, 4, 5]\<close> and
  \<open>collection_dim = 2\<close> give \<open>[1, 2]\<close>; the builder returns each divided by its norm,
  \<open>sqrt 29\<close> and \<open>sqrt 5\<close>.
\<close>

theorem worked_examples:
  "fuse [1, 2, 3] 7 = [1, 2, 3, 1, 2, 3, 1] \<and>
   fuse [1, 2, 3, 4, 5] 2 = [1, 2] \<and>
   build_query_vector (\<lambda>q. [1, 2, 3]) 7 query_text
     = Inr (map (\<lambda>x. x / sqrt 29) [1, 2, 3, 1, 2, 3, 1]) \<and>
   build_query_vector (\<lambda>q. [1, 2, 3, 4, 5]) 2 query_text
     = Inr (map (\<lambda>x. x / sqrt 5) [1, 2])"
proof -
  have t: "fuse [1, 2, 3] 7 = [1, 2, 3, 1, 2, 3, 1]"
    by (simp add: fuse_def slice_to_def tile_def eval_nat_numeral)
  have c: "fuse [1, 2, 3, 4, 5] 2 = [1, 2]"
    by (simp add: fuse_def slice_to_def eval_nat_numeral)
  have nt: "linalg_norm [1, 2, 3, 1, 2, 3, 1] = sqrt 29"
    and nc: "linalg_norm [1, 2] = sqrt 5"
    by (simp_all add: linalg_norm_def)
  show ?thesis
    by (simp add: t c build_query_vector_def nt nc Let_def)
qed

end
